theory Spec2Isabelle
  imports Main "HOL-Library.Sublist" "HOL-Library.AList" "HOL-Library.Word"
begin

unbundle bit_operations_syntax

section \<open>Strings of the storage format\<close>

text \<open>
  The storage handler (\<open>myDatabase/dbhandler.js\<close>) works on the text of the database file.
  A file is modelled by the list of its bytes. The three constants are those of the handler:
  \<open>SEP = '\r\n'\<close>, \<open>newLine = '\r\n'\<close> and \<open>newLine_encoded = '<|NEW-LINE|>'\<close>.
\<close>

definition SEP :: string where
  "SEP = [CHR 0x0D, CHR 0x0A]"

definition newLine :: string where
  "newLine = [CHR 0x0D, CHR 0x0A]"

definition newLine_encoded :: string where
  "newLine_encoded = ''<|NEW-LINE|>''"

text \<open>
  \<open>str.replaceAll(pat, rep)\<close> for a string pattern: the occurrences of \<open>pat\<close> are found from
  left to right, without overlap, and each is replaced by \<open>rep\<close>. (For the empty pattern
  JavaScript inserts \<open>rep\<close> around every character.)
\<close>

function replaceAll :: "string \<Rightarrow> string \<Rightarrow> string \<Rightarrow> string" where
  "replaceAll pat rep [] = (if pat = [] then rep else [])"
| "replaceAll pat rep (c # cs) =
     (if pat = [] then rep @ c # replaceAll pat rep cs
      else if prefix pat (c # cs) then rep @ replaceAll pat rep (drop (length pat) (c # cs))
      else c # replaceAll pat rep cs)"
  by pat_completeness auto
termination
  by (relation "measure (\<lambda>(pat, rep, s). length s)") auto

text \<open>\<open>str.includes(pat)\<close>: \<open>pat\<close> occurs in \<open>str\<close> as a substring.\<close>

fun str_includes :: "string \<Rightarrow> string \<Rightarrow> bool" where
  "str_includes [] pat = (pat = [])"
| "str_includes (c # cs) pat = (prefix pat (c # cs) \<or> str_includes cs pat)"

text \<open>
  The first line of \<open>#prepare_data_and_truncate\<close> and of \<open>#prepare_doc_arr_to_str\<close>:
  \<open>data.replaceAll(newLine, newLine_encoded)\<close>.
\<close>

definition encode_str :: "string \<Rightarrow> string" where
  "encode_str data = replaceAll newLine newLine_encoded data"

text \<open>\<open>DBHandler.#decode_str\<close>.\<close>

definition decode_str :: "string \<Rightarrow> string" where
  "decode_str data = replaceAll newLine_encoded newLine (replaceAll SEP [] data)"

text \<open>\<open>array.join(sep)\<close> on an array of strings.\<close>

fun join :: "string \<Rightarrow> string list \<Rightarrow> string" where
  "join sep [] = []"
| "join sep [x] = x"
| "join sep (x # y # ys) = x @ sep @ join sep (y # ys)"


subsection \<open>Writing\<close>






section \<open>JavaScript values\<close>

text \<open>
  The values that flow through the schema engine and the records: primitives, functions
  (only their name matters: a schema may give a type as a constructor such as \<open>String\<close>),
  plain objects, arrays, the boxed primitives \<open>new String(..)\<close>, \<open>new Number(..)\<close>,
  \<open>new Boolean(..)\<close>, and dates (milliseconds since the epoch). Numbers are the integers.
  An object is the list of its own enumerable properties in enumeration order; a value is a
  tree, so that two values never share a part.
\<close>

datatype jsval =
    JUndefined
  | JNull
  | JBool bool
  | JNum int
  | JStr string
  | JFun string
  | JObj "(string \<times> jsval) list"
  | JArr "jsval list"
  | JBoxStr string
  | JBoxNum int
  | JBoxBool bool
  | JDate int

type_synonym props = "(string \<times> jsval) list"

text \<open>Every \<open>throw\<close> and every rejected promise of the source is one of these.\<close>

datatype error =
    TypeError
  | DataCloneError
  | SyntaxError
  | InvalidDefinition
  | InvalidOptions string
  | InvalidContent
  | InvalidSchema
  | MissingRequired string
  | WrongType string
  | NoValidId
  | NoValidCreatedAt
  | NotConnected
  | EmptyPattern
  | InvalidFileType
  | CreateFailed
  | AccessFailed
  | NotAFile
  | NoPermission
  | StatFailed
  | ReadFailed
  | WriteFailed
  | UncaughtStreamError

text \<open>Sequencing of computations that may throw.\<close>

definition bind_err :: "error + 'a \<Rightarrow> ('a \<Rightarrow> error + 'b) \<Rightarrow> error + 'b" where
  "bind_err m f = (case m of Inl e \<Rightarrow> Inl e | Inr x \<Rightarrow> f x)"

text \<open>\<open>typeof x\<close>.\<close>

fun typeof :: "jsval \<Rightarrow> string" where
  "typeof JUndefined = ''undefined''"
| "typeof (JBool b) = ''boolean''"
| "typeof (JNum n) = ''number''"
| "typeof (JStr s) = ''string''"
| "typeof (JFun f) = ''function''"
| "typeof v = ''object''"

text \<open>The truth value of \<open>x\<close> in a condition (\<open>!x\<close> is its negation).\<close>

fun truthy :: "jsval \<Rightarrow> bool" where
  "truthy JUndefined = False"
| "truthy JNull = False"
| "truthy (JBool b) = b"
| "truthy (JNum n) = (n \<noteq> 0)"
| "truthy (JStr s) = (s \<noteq> [])"
| "truthy v = True"

text \<open>Decimal digits of a number, as \<open>n.toString()\<close> prints an integer.\<close>

fun show_nat :: "nat \<Rightarrow> string" where
  "show_nat n = (if n < 10 then [''0123456789'' ! n] else show_nat (n div 10) @ [''0123456789'' ! (n mod 10)])"

definition show_int :: "int \<Rightarrow> string" where
  "show_int i = (if i < 0 then CHR ''-'' # show_nat (nat (- i)) else show_nat (nat i))"

text \<open>
  The own enumerable properties of a value, in the order of \<open>for (k in x)\<close>,
  \<open>Object.keys(x)\<close> and the spread \<open>{...x}\<close>: the properties of a plain object, the indices
  of an array or of a boxed string, nothing for the other values.
\<close>

fun own_props :: "jsval \<Rightarrow> props" where
  "own_props (JObj ps) = ps"
| "own_props (JArr xs) = zip (map show_nat [0..<length xs]) xs"
| "own_props (JBoxStr s) = zip (map show_nat [0..<length s]) (map (\<lambda>c. JStr [c]) s)"
| "own_props v = []"

text \<open>
  \<open>Object.hasOwn(x, k)\<close> and \<open>x[k]\<close> for the keys the program asks for (\<open>type\<close>,
  \<open>required\<close>, \<open>default\<close>, \<open>timestamps\<close>, \<open>_id\<close>, \<open>createdAt\<close>, \<open>updatedAt\<close> and the field
  names of a schema). \<open>k in x\<close> is modelled by \<open>hasOwn\<close> as well: the properties that a
  value inherits from its prototype (\<open>toString\<close>, \<open>constructor\<close>, ...) are not part of the
  model, so a field of a schema is taken not to bear such a name.
\<close>

definition hasOwn :: "jsval \<Rightarrow> string \<Rightarrow> bool" where
  "hasOwn x k = (map_of (own_props x) k \<noteq> None)"

definition get_prop :: "jsval \<Rightarrow> string \<Rightarrow> jsval" where
  "get_prop x k = (case map_of (own_props x) k of Some v \<Rightarrow> v | None \<Rightarrow> JUndefined)"

text \<open>
  \<open>obj[k] = v\<close> on a plain object: an existing property keeps its place, a new one is added
  at the end.
\<close>

definition set_prop :: "props \<Rightarrow> string \<Rightarrow> jsval \<Rightarrow> props" where
  "set_prop ps k v = AList.update k v ps"

text \<open>
  \<open>structuredClone(x)\<close> makes a deep copy; it throws a \<open>DataCloneError\<close> when a function
  occurs in \<open>x\<close>. Values being trees, the copy of a value is the value.
\<close>

fun clonable :: "jsval \<Rightarrow> bool" where
  "clonable (JFun f) = False"
| "clonable (JObj ps) = (\<forall>v \<in> set (map snd ps). clonable v)"
| "clonable (JArr xs) = (\<forall>v \<in> set xs. clonable v)"
| "clonable v = True"

definition structuredClone :: "jsval \<Rightarrow> error + jsval" where
  "structuredClone x = (if clonable x then Inr x else Inl DataCloneError)"

section \<open>Schema (\<open>myDatabase/schema.js\<close>)\<close>

text \<open>\<open>x.constructor.name\<close> for a value with \<open>typeof x === 'object'\<close> other than \<open>null\<close>.\<close>

fun constructor_name :: "jsval \<Rightarrow> string" where
  "constructor_name (JArr xs) = ''Array''"
| "constructor_name (JBoxStr s) = ''String''"
| "constructor_name (JBoxNum n) = ''Number''"
| "constructor_name (JBoxBool b) = ''Boolean''"
| "constructor_name (JDate t) = ''Date''"
| "constructor_name v = ''Object''"

text \<open>
  \<open>Schema.typeX(x)\<close>. For \<open>null\<close>, \<open>typeof\<close> is \<open>'object'\<close> and reading
  \<open>x.constructor\<close> throws a \<open>TypeError\<close>.
\<close>

definition typeX :: "jsval \<Rightarrow> error + string" where
  "typeX x =
     (let typ = typeof x in
      if typ = ''object'' then
        (if x = JNull then Inl TypeError
         else if constructor_name x \<noteq> ''Object'' then Inr (constructor_name x)
         else Inr typ)
      else Inr typ)"

text \<open>A schema: the \<open>_definition\<close> member and the private \<open>#options\<close>.\<close>

record schema =
  definition' :: props
  options :: props

text \<open>\<open>Schema.#defaultOptions\<close> and \<open>Schema.#allowedTypesAndDefaultsVals()\<close>.\<close>

definition defaultOptions :: props where
  "defaultOptions = [(''timestamps'', JBool False)]"

definition allowedTypesAndDefaultsVals :: props where
  "allowedTypesAndDefaultsVals =
     [(''string'', JStr []),
      (''number'', JNum 0),
      (''boolean'', JBool False),
      (''object'', JObj []),
      (''String'', JBoxStr []),
      (''Number'', JBoxNum 0),
      (''Boolean'', JBoxBool False),
      (''Date'', JDate 0),
      (''Array'', JArr [])]"

text \<open>
  \<open>Schema.#get_default_val_by_param_property()\<close>: for each property of a field its
  \<open>defaultValue\<close> and \<open>must\<close>. The default of \<open>default\<close> is the object
  \<open>{map: allowedTypesAndDefaultsVals, property: "type"}\<close>.
\<close>

definition get_default_val_by_param_property :: props where
  "get_default_val_by_param_property =
     [(''type'', JObj [(''defaultValue'', JStr ''object''), (''must'', JBool True)]),
      (''required'', JObj [(''defaultValue'', JBool False), (''must'', JBool False)]),
      (''default'', JObj [(''defaultValue'',
                          JObj [(''map'', JObj allowedTypesAndDefaultsVals), (''property'', JStr ''type'')]),
                        (''must'', JBool False)])]"


text \<open>
  A value used as a property key. The program uses the \<open>type\<close> of a field as a key of the
  table of allowed types; a string is its own key. For the other values JavaScript would
  convert the value to a string first; the model gives them no key, so that a \<open>type\<close> that is
  not a string is not an allowed type.
\<close>

fun as_key :: "jsval \<Rightarrow> string option" where
  "as_key (JStr s) = Some s"
| "as_key v = None"

definition hasOwn_key :: "jsval \<Rightarrow> jsval \<Rightarrow> bool" where
  "hasOwn_key x k = (case as_key k of Some s \<Rightarrow> hasOwn x s | None \<Rightarrow> False)"

definition get_prop_key :: "jsval \<Rightarrow> jsval \<Rightarrow> jsval" where
  "get_prop_key x k = (case as_key k of Some s \<Rightarrow> get_prop x s | None \<Rightarrow> JUndefined)"


text \<open>
  \<open>Schema.#is_valid_definition_param_format(valObj)\<close>. Its two callers pass an object that
  is not \<open>null\<close> (a spread copy, or a member of a stored definition). The comparisons of
  \<open>typeX\<close> throw when \<open>typeX\<close> does. In the last test the stored \<open>type\<close> is a string, by the
  test on \<open>type\<close> before it, so that \<open>!=\<close> compares two strings.
\<close>

definition is_valid_definition_param_format :: "jsval \<Rightarrow> error + bool" where
  "is_valid_definition_param_format valObj =
     (if typeof valObj \<noteq> ''object'' then Inr False
      else
        let propsAndDefaultVals = JObj get_default_val_by_param_property in
        if \<exists>prop \<in> set (map fst (own_props valObj)). \<not> hasOwn propsAndDefaultVals prop then Inr False
        else if (truthy (get_prop (get_prop propsAndDefaultVals ''type'') ''must'') \<and> \<not> hasOwn valObj ''type'')
              \<or> (hasOwn valObj ''type'' \<and> \<not> hasOwn_key (JObj allowedTypesAndDefaultsVals) (get_prop valObj ''type''))
        then Inr False
        else
          bind_err (if hasOwn valObj ''required''
                    then bind_err (typeX (get_prop valObj ''required'')) (\<lambda>a.
                         bind_err (typeX (get_prop (get_prop propsAndDefaultVals ''required'') ''defaultValue'')) (\<lambda>b.
                         Inr (a \<noteq> b)))
                    else Inr False) (\<lambda>badRequired.
          if (truthy (get_prop (get_prop propsAndDefaultVals ''required'') ''must'') \<and> \<not> hasOwn valObj ''required'')
             \<or> badRequired
          then Inr False
          else
            bind_err (if hasOwn valObj ''default'' \<and> hasOwn valObj ''type''
                      then bind_err (typeX (get_prop valObj ''default'')) (\<lambda>a.
                           Inr (JStr a \<noteq> get_prop valObj ''type''))
                      else Inr False) (\<lambda>badDefault.
            if (truthy (get_prop (get_prop propsAndDefaultVals ''default'') ''must'') \<and> \<not> hasOwn valObj ''default'')
               \<or> badDefault
            then Inr False
            else Inr True)))"








text \<open>The getters \<open>definition\<close> and \<open>options\<close>, which return a clone.\<close>

definition get_definition :: "schema \<Rightarrow> error + jsval" where
  "get_definition this = structuredClone (JObj (definition' this))"

definition get_options :: "schema \<Rightarrow> error + jsval" where
  "get_options this = structuredClone (JObj (options this))"


text \<open>\<open>Schema.is_valid_schema(schemaObj)\<close> for an instance of \<open>Schema\<close>.\<close>

fun all_valid_params :: "props \<Rightarrow> error + bool" where
  "all_valid_params [] = Inr True"
| "all_valid_params ((param, val) # rest) =
     bind_err (is_valid_definition_param_format val) (\<lambda>ok.
       if \<not> ok then Inr False else all_valid_params rest)"

fun all_valid_options :: "props \<Rightarrow> error + bool" where
  "all_valid_options [] = Inr True"
| "all_valid_options ((optParam, val) # rest) =
     bind_err (typeX val) (\<lambda>a.
     bind_err (typeX (get_prop (JObj defaultOptions) optParam)) (\<lambda>b.
       if a \<noteq> b then Inr False else all_valid_options rest))"

definition is_valid_schema :: "schema \<Rightarrow> error + bool" where
  "is_valid_schema schemaObj =
     bind_err (get_options schemaObj) (\<lambda>schemaOpt.
     bind_err (get_definition schemaObj) (\<lambda>schemaDef.
       if typeof schemaOpt \<noteq> ''object'' \<or> typeof schemaDef \<noteq> ''object''
          \<or> length (own_props schemaDef) = 0
       then Inr False
       else bind_err (all_valid_params (own_props schemaDef)) (\<lambda>ok.
              if \<not> ok then Inr False else all_valid_options (own_props schemaOpt))))"

section \<open>The storage handler (\<open>myDatabase/dbhandler.js\<close>)\<close>

subsection \<open>The file system\<close>

text \<open>
  What the handler sees of the file system: at a path there is nothing, a regular file with
  its mode bits and its bytes, a directory, or something that \<open>fs.stat\<close> cannot reach (an
  error other than \<open>ENOENT\<close>). \<open>creatable\<close> tells whether the system lets the process create
  a file at a path, and \<open>umask\<close> is the mask applied to the mode of a new file.
\<close>

datatype node = RegularFile "32 word" string | Directory "32 word" | Unreachable

record filesystem =
  nodes :: "string \<Rightarrow> node option"
  creatable :: "string \<Rightarrow> bool"
  umask :: "32 word"

datatype stat_error = ENOENT | EOTHER

definition fs_stat :: "filesystem \<Rightarrow> string \<Rightarrow> stat_error + node" where
  "fs_stat fs p =
     (case nodes fs p of
        None \<Rightarrow> Inl ENOENT
      | Some Unreachable \<Rightarrow> Inl EOTHER
      | Some n \<Rightarrow> Inr n)"


fun stats_mode :: "node \<Rightarrow> 32 word" where
  "stats_mode (RegularFile m c) = m"
| "stats_mode (Directory m) = m"
| "stats_mode Unreachable = 0"

fun isFile :: "node \<Rightarrow> bool" where
  "isFile (RegularFile m c) = True"
| "isFile n = False"

text \<open>\<open>fs.constants.F_OK\<close>, \<open>R_OK\<close>, \<open>W_OK\<close> and the type bits of a regular file.\<close>

definition F_OK :: "32 word" where "F_OK = 0"
definition R_OK :: "32 word" where "R_OK = 4"
definition W_OK :: "32 word" where "W_OK = 2"
definition S_IFREG :: "32 word" where "S_IFREG = 0x8000"

text \<open>
  \<open>fs.writeFile(path, data, {mode})\<close>: replaces the bytes of a regular file, creates the
  file when there is none and the system allows it, and fails otherwise.
\<close>

definition fs_writeFile :: "filesystem \<Rightarrow> string \<Rightarrow> string \<Rightarrow> 32 word \<Rightarrow> filesystem option" where
  "fs_writeFile fs p d m =
     (case nodes fs p of
        None \<Rightarrow>
          if creatable fs p
          then Some (fs\<lparr>nodes := (nodes fs)(p \<mapsto> RegularFile (S_IFREG OR (m AND NOT (umask fs))) d)\<rparr>)
          else None
      | Some (RegularFile m0 c) \<Rightarrow> Some (fs\<lparr>nodes := (nodes fs)(p \<mapsto> RegularFile m0 d)\<rparr>)
      | Some n \<Rightarrow> None)"





text \<open>
  \<open>path.extname(p)\<close> on POSIX paths: the text from the last dot of the last component of the
  path, empty when the component has no dot, begins with its only dot, or is \<open>..\<close>.
\<close>

definition extname :: "string \<Rightarrow> string" where
  "extname p =
     (let base = rev (takeWhile (\<lambda>c. c \<noteq> CHR ''/'') (dropWhile (\<lambda>c. c = CHR ''/'') (rev p)));
          ext = rev (takeWhile (\<lambda>c. c \<noteq> CHR ''.'') (rev base));
          stem = take (length base - length ext - 1) base
      in if CHR ''.'' \<notin> set base \<or> stem = [] \<or> base = ''..'' then [] else CHR ''.'' # ext)"

subsection \<open>The handler\<close>

text \<open>
  The handler holds the path of the database file, \<open>null\<close> when it is not connected. Its
  lock orders the operations on the file; the model runs one operation at a time.
\<close>

record dbhandler =
  dbFilePath :: "string option"

definition dbFileExt :: string where
  "dbFileExt = ''.json''"

definition new_DBHandler :: dbhandler where
  "new_DBHandler = \<lparr>dbFilePath = None\<rparr>"


definition disconnect :: "dbhandler \<Rightarrow> dbhandler" where
  "disconnect this = (if dbFilePath this \<noteq> None then this\<lparr>dbFilePath := None\<rparr> else this)"

text \<open>\<open>DBHandler.copy(oldHandler)\<close>.\<close>

definition DBHandler_copy :: "dbhandler \<Rightarrow> dbhandler" where
  "DBHandler_copy oldHandler = new_DBHandler\<lparr>dbFilePath := dbFilePath oldHandler\<rparr>"

text \<open>
  \<open>DBHandler.check_db_file(dbFilePath)\<close>: the promise resolves with \<open>true\<close> or rejects; the
  file system may have got a new file. The test of the permissions is the condition of the
  source, \<open>(stats.mode & F_OK) && (stats.mode & W_OK) && (stats.mode & R_OK) != 0\<close>.
\<close>

definition check_db_file :: "filesystem \<Rightarrow> string \<Rightarrow> (error + bool) \<times> filesystem" where
  "check_db_file fs path =
     (if path = [] \<or> extname path \<noteq> dbFileExt then (Inl InvalidFileType, fs)
      else
        case fs_stat fs path of
          Inl ENOENT \<Rightarrow>
            (case fs_writeFile fs path [] 0x1B6 of
               None \<Rightarrow> (Inl CreateFailed, fs)
             | Some fs' \<Rightarrow> (Inr True, fs'))
        | Inl EOTHER \<Rightarrow> (Inl AccessFailed, fs)
        | Inr stats \<Rightarrow>
            if \<not> isFile stats then (Inl NotAFile, fs)
            else if (stats_mode stats AND F_OK) \<noteq> 0 \<and> (stats_mode stats AND W_OK) \<noteq> 0
                    \<and> (stats_mode stats AND R_OK) \<noteq> 0
            then (Inl NoPermission, fs)
            else (Inr True, fs))"

text \<open>\<open>connect_dbFilePath(dbFilePath)\<close>.\<close>

definition connect_dbFilePath :: "dbhandler \<Rightarrow> filesystem \<Rightarrow> string \<Rightarrow> (error + unit) \<times> dbhandler \<times> filesystem" where
  "connect_dbFilePath this fs path =
     (let this0 = this\<lparr>dbFilePath := None\<rparr> in
      case check_db_file fs path of
        (Inl err, fs') \<Rightarrow> (Inl err, this0, fs')
      | (Inr valid, fs') \<Rightarrow> (Inr (), if valid then this0\<lparr>dbFilePath := Some path\<rparr> else this0, fs'))"






text \<open>
  The handler of the \<open>data\<close> event in \<open>delete_by_match\<close>: the state is the array
  \<open>docStrArray\<close> and the \<open>buffer\<close>.
\<close>

definition keep_line :: "string \<Rightarrow> string \<Rightarrow> bool" where
  "keep_line pattern line =
     (line \<noteq> [] \<and> line \<noteq> ''['' \<and> line \<noteq> '']'' \<and> \<not> str_includes line pattern)"

definition strip_comma :: "string \<Rightarrow> string" where
  "strip_comma line = (if line \<noteq> [] \<and> last line = CHR '','' then butlast line else line)"



section \<open>Records (\<open>document.js\<close>) and the model (\<open>model.js\<close>)\<close>

text \<open>
  What a call takes from the JavaScript runtime: the time \<open>new Date()\<close> (in milliseconds,
  one reading for a call), the twelve hexadecimal digits of
  \<open>crypto.randomBytes(6).toString('hex')\<close>, \<open>JSON.stringify\<close> and \<open>JSON.parse\<close> (\<open>None\<close> for
  a \<open>SyntaxError\<close>), the time value of \<open>new Date(x)\<close> (\<open>None\<close> for an invalid date),
  \<open>date.toISOString()\<close>, and the conversion of a value to a string in a concatenation.
\<close>

record runtime =
  now :: int
  randomHex :: string
  json_stringify :: "jsval \<Rightarrow> string"
  json_parse :: "string \<Rightarrow> jsval option"
  new_Date :: "jsval \<Rightarrow> int option"
  toISOString :: "int \<Rightarrow> string"
  to_string :: "jsval \<Rightarrow> string"


text \<open>
  A record. It holds its schema and its handler; the model copies them into the record
  (in the source the record refers to the objects of its model).
\<close>

record document =
  content' :: props
  createTime :: "int option"
  updateTime :: "int option"
  id' :: jsval
  schema' :: schema
  dbHandler :: dbhandler
  saved :: bool

datatype idSeed = SeedNum int | SeedStr string

fun idSeed_toString :: "idSeed \<Rightarrow> string" where
  "idSeed_toString (SeedNum n) = show_int n"
| "idSeed_toString (SeedStr s) = s"

text \<open>\<open>Document.dataMembersToStr\<close>.\<close>

definition idMark :: string where "idMark = ''_id''"
definition createTMark :: string where "createTMark = ''createdAt''"
definition updateTMark :: string where "updateTMark = ''updatedAt''"

text \<open>
  The loop of \<open>#setup_content(content)\<close> over the fields of the definition of the schema.
  Reading a property of a field that is \<open>null\<close> throws a \<open>TypeError\<close>.
\<close>

fun setup_content_loop :: "jsval \<Rightarrow> props \<Rightarrow> props \<Rightarrow> error + props" where
  "setup_content_loop content [] newContent = Inr newContent"
| "setup_content_loop content ((param, spec) # rest) newContent =
     (if spec = JNull \<or> spec = JUndefined then Inl TypeError
      else if \<not> hasOwn content param then
        (if truthy (get_prop spec ''required'') then Inl (MissingRequired param)
         else setup_content_loop content rest (set_prop newContent param (get_prop spec ''default'')))
      else
        bind_err (typeX (get_prop content param)) (\<lambda>t.
          if get_prop spec ''type'' = JStr t
          then setup_content_loop content rest (set_prop newContent param (get_prop content param))
          else Inl (WrongType param)))"

text \<open>\<open>#setup_content(content)\<close>, on the schema of the record.\<close>

definition setup_content :: "schema \<Rightarrow> jsval \<Rightarrow> error + props" where
  "setup_content sch content =
     bind_err (get_definition sch) (\<lambda>schemaDef.
       setup_content_loop content (own_props schemaDef) [])"

text \<open>
  \<open>#init_doc(content)\<close>. The test on the identifier is
  \<open>idMark in content && typeof (content[idMark] === typeof (this._id))\<close>: its second part is
  the \<open>typeof\<close> of a boolean, a non-empty string.
\<close>

definition init_doc :: "runtime \<Rightarrow> document \<Rightarrow> jsval \<Rightarrow> error + document" where
  "init_doc rt this content =
     bind_err (setup_content (schema' this) content) (\<lambda>newContent.
       let this = this\<lparr>content' := newContent\<rparr>;
           this = (if hasOwn content idMark
                      \<and> truthy (JStr (typeof (JBool (get_prop content idMark = JStr (typeof (id' this))))))
                   then this\<lparr>id' := get_prop content idMark\<rparr> else this);
           this = (if hasOwn content createTMark \<and> new_Date rt (get_prop content createTMark) \<noteq> None
                   then this\<lparr>createTime := new_Date rt (get_prop content createTMark)\<rparr> else this);
           this = (if hasOwn content updateTMark \<and> new_Date rt (get_prop content updateTMark) \<noteq> None
                   then this\<lparr>updateTime := new_Date rt (get_prop content updateTMark)\<rparr>
                   else if createTime this \<noteq> None \<and> updateTime this = None
                   then this\<lparr>updateTime := createTime this\<rparr> else this)
       in Inr this)"

text \<open>
  \<open>#set_options()\<close> of a record. Its second branch writes into the copy of the options
  that the getter returned, which nobody reads.
\<close>

definition doc_set_options :: "runtime \<Rightarrow> document \<Rightarrow> error + document" where
  "doc_set_options rt this =
     bind_err (get_options (schema' this)) (\<lambda>opts.
       if get_prop opts ''timestamps'' = JBool True \<and> createTime this = None
       then Inr (this\<lparr>createTime := Some (now rt), updateTime := Some (now rt)\<rparr>)
       else Inr this)"

text \<open>The constructor \<open>new Document(content, schema, dbHandler, idSeed)\<close>.\<close>

definition Document :: "runtime \<Rightarrow> jsval \<Rightarrow> schema \<Rightarrow> dbhandler \<Rightarrow> idSeed \<Rightarrow> error + document" where
  "Document rt content sch handler seed =
     (if \<not> truthy content \<or> typeof content \<noteq> ''object'' then Inl InvalidContent
      else
        bind_err (is_valid_schema sch) (\<lambda>valid.
          if \<not> valid then Inl InvalidSchema
          else
            let this = \<lparr>content' = [], createTime = None, updateTime = None, id' = JStr [],
                        schema' = sch, dbHandler = handler, saved = False\<rparr> in
            bind_err (init_doc rt this content) (\<lambda>this.
            bind_err (doc_set_options rt this) (\<lambda>this.
              if id' this = JStr []
              then Inr (this\<lparr>id' := JStr (idSeed_toString seed @ ''-'' @ show_int (now rt) @ ''-''
                                            @ randomHex rt)\<rparr>)
              else Inr this))))"

text \<open>
  \<open>Document.reconstruct_doc(content, schema, dbHandler, saved)\<close>; \<open>None\<close> is the \<open>null\<close>
  that it returns when anything was thrown. \<open>doc.id[0]\<close> is the first character of a
  string, the property \<open>0\<close> of another value, and throws for \<open>null\<close> and \<open>undefined\<close>; in
  \<open>doc.createdAt >= timeCheck\<close> a \<open>null\<close> counts as \<open>0\<close>.
\<close>

definition id_first :: "jsval \<Rightarrow> error + jsval" where
  "id_first x =
     (case x of
        JNull \<Rightarrow> Inl TypeError
      | JUndefined \<Rightarrow> Inl TypeError
      | JStr s \<Rightarrow> Inr (case s of [] \<Rightarrow> JUndefined | c # cs \<Rightarrow> JStr [c])
      | _ \<Rightarrow> Inr (get_prop x ''0''))"

definition reconstruct_doc :: "runtime \<Rightarrow> jsval \<Rightarrow> schema \<Rightarrow> dbhandler \<Rightarrow> bool \<Rightarrow> document option" where
  "reconstruct_doc rt content sch handler was_saved =
     (let timeCheck = now rt in
      case bind_err (Document rt content sch handler (SeedNum (- 1))) (\<lambda>doc.
           bind_err (id_first (id' doc)) (\<lambda>c.
             if c = JStr ''-'' then Inl NoValidId
             else if (case createTime doc of None \<Rightarrow> 0 | Some t \<Rightarrow> t) \<ge> timeCheck then Inl NoValidCreatedAt
             else Inr (doc\<lparr>saved := (if was_saved then True else False)\<rparr>))) of
        Inl err \<Rightarrow> None
      | Inr doc \<Rightarrow> Some doc)"

text \<open>\<open>toString()\<close>; \<open>s.slice(1, -1)\<close> drops the first and the last character.\<close>

definition dq :: string where
  "dq = [CHR 0x22]"




text \<open>\<open>edit(newContent)\<close>: what is thrown, if anything, and the record after the call.\<close>

definition edit :: "runtime \<Rightarrow> document \<Rightarrow> jsval \<Rightarrow> (error + unit) \<times> document" where
  "edit rt this newContent =
     (case setup_content (schema' this) newContent of
        Inl err \<Rightarrow> (Inl err, this)
      | Inr processedContent \<Rightarrow>
          (Inr (), (this\<lparr>content' := processedContent\<rparr>)\<lparr>updateTime := Some (now rt)\<rparr>))"

subsection \<open>The model\<close>

record model =
  m_dbHandler :: dbhandler
  m_schema :: schema
  countDocs :: nat

text \<open>The constructor \<open>new Model(schema, dbHandler)\<close>; \<open>None\<close> for a handler left out.\<close>

definition Model :: "schema \<Rightarrow> dbhandler option \<Rightarrow> error + model" where
  "Model sch handler =
     bind_err (is_valid_schema sch) (\<lambda>valid.
       if \<not> valid then Inl InvalidSchema
       else Inr \<lparr>m_dbHandler = (case handler of Some h \<Rightarrow> h | None \<Rightarrow> new_DBHandler),
                 m_schema = sch, countDocs = 0\<rparr>)"












section \<open>The validation as the specification words it\<close>




section \<open>A schema, a runtime and a file system to run the program on\<close>



definition titleSchema :: schema where
  "titleSchema =
     \<lparr>definition' = [(''title'', JObj [(''type'', JStr ''string''), (''required'', JBool True),
                                       (''default'', JStr [])])],
      options = [(''timestamps'', JBool True)]\<rparr>"

text \<open>
  A runtime: \<open>JSON.stringify\<close> for objects whose values are strings without characters to
  escape, integers, booleans, \<open>null\<close> and arrays of these; \<open>JSON.parse\<close> for the three texts
  that the examples load; dates as integers and their decimal digits.
\<close>

fun plain_stringify :: "jsval \<Rightarrow> string" where
  "plain_stringify (JStr s) = dq @ s @ dq"
| "plain_stringify (JNum n) = show_int n"
| "plain_stringify (JBool b) = (if b then ''true'' else ''false'')"
| "plain_stringify (JObj ps) =
     ''{'' @ join '','' (map (\<lambda>kv. dq @ fst kv @ dq @ '':'' @ plain_stringify (snd kv)) ps) @ ''}''"
| "plain_stringify (JArr xs) = ''['' @ join '','' (map plain_stringify xs) @ '']''"
| "plain_stringify v = ''null''"

definition recordA :: jsval where
  "recordA = JObj [(''_id'', JStr ''0-5-aa''), (''title'', JStr ''A'')]"

definition recordB :: jsval where
  "recordB = JObj [(''_id'', JStr ''1-6-bb''), (''title'', JStr ''B'')]"

definition recordNoId :: jsval where
  "recordNoId = JObj [(''title'', JStr ''C'')]"

definition sample_parse :: "string \<Rightarrow> jsval option" where
  "sample_parse s =
     (if s = plain_stringify (JArr [recordA, recordB]) then Some (JArr [recordA, recordB])
      else if s = plain_stringify (JArr [recordNoId]) then Some (JArr [recordNoId])
      else if s = ''[]'' then Some (JArr [])
      else None)"

definition sample_new_Date :: "jsval \<Rightarrow> int option" where
  "sample_new_Date x = (case x of JNum n \<Rightarrow> Some n | JDate t \<Rightarrow> Some t | JNull \<Rightarrow> Some 0 | _ \<Rightarrow> None)"

definition sample_rt :: runtime where
  "sample_rt =
     \<lparr>now = 1700000000000, randomHex = ''0a1b2c3d4e5f'', json_stringify = plain_stringify,
      json_parse = sample_parse, new_Date = sample_new_Date, toISOString = show_int,
      to_string = plain_stringify\<rparr>"

text \<open>
  A file system with the database file \<open>db.json\<close>, a regular file whose mode has no
  permission bit at all (\<open>0o100000\<close>), holding the given bytes.
\<close>

definition sample_fs :: "string \<Rightarrow> filesystem" where
  "sample_fs bytes =
     \<lparr>nodes = [''db.json'' \<mapsto> RegularFile 0x8000 bytes], creatable = (\<lambda>p. True), umask = 0x12\<rparr>"

definition sample_handler :: dbhandler where
  "sample_handler = \<lparr>dbFilePath = Some ''db.json''\<rparr>"

section \<open>What holds of every schema that the constructor builds\<close>







definition sample_doc :: document where
  "sample_doc =
     \<lparr>content' = [(''title'', JStr ''A'')], createTime = Some 5, updateTime = Some 5,
      id' = JStr ''0-5-aa'', schema' = titleSchema, dbHandler = sample_handler, saved = True\<rparr>"

section \<open>The lines of a stored file\<close>


text \<open>The lines that the handler of the \<open>data\<close> event keeps, as it writes them.\<close>

definition kept_lines :: "string \<Rightarrow> string list \<Rightarrow> string list" where
  "kept_lines pattern ls = map strip_comma (filter (keep_line pattern) ls)"


section \<open>Properties\<close>

declare show_nat.simps [simp del]

lemmas js_defs = hasOwn_def get_prop_def set_prop_def typeX_def bind_err_def structuredClone_def
  hasOwn_key_def get_prop_key_def

subsection \<open>Replacing and encoding\<close>

lemma replaceAll_prefix:
  "pat \<noteq> [] \<Longrightarrow> replaceAll pat rep (pat @ s) = rep @ replaceAll pat rep s"
  by (cases pat) simp_all

lemma replaceAll_noprefix:
  "pat \<noteq> [] \<Longrightarrow> \<not> prefix pat (c # cs) \<Longrightarrow> replaceAll pat rep (c # cs) = c # replaceAll pat rep cs"
  by simp

lemma encode_str_Nil: "encode_str [] = []"
  by (simp add: encode_str_def newLine_def)

lemma encode_str_newLine: "encode_str (newLine @ s) = newLine_encoded @ encode_str s"
  unfolding encode_str_def by (rule replaceAll_prefix) (simp add: newLine_def)

lemma encode_str_other:
  "\<not> prefix newLine (c # cs) \<Longrightarrow> encode_str (c # cs) = c # encode_str cs"
  unfolding encode_str_def by (rule replaceAll_noprefix) (simp_all add: newLine_def)


text \<open>
  A text without \<open><\<close> that begins the encoded string begins the string itself: the encoding
  copies the characters up to the first line break, and then writes a \<open><\<close>.
\<close>

lemma prefix_encode_plain:
  "CHR ''<'' \<notin> set p \<Longrightarrow> prefix p (encode_str t) \<Longrightarrow> prefix p t"
proof (induction p arbitrary: t)
  case Nil
  then show ?case by simp
next
  case (Cons a p)
  show ?case
  proof (cases t)
    case Nil
    with Cons.prems show ?thesis by (simp add: encode_str_Nil)
  next
    case c: (Cons c cs)
    show ?thesis
    proof (cases "prefix newLine t")
      case True
      then obtain r where "t = newLine @ r" by (auto simp: prefix_def)
      then have "encode_str t = newLine_encoded @ encode_str r"
        by (simp add: encode_str_newLine)
      with Cons.prems show ?thesis
        by (auto simp: newLine_encoded_def)
    next
      case False
      with c have e: "encode_str t = c # encode_str cs"
        by (simp add: encode_str_other)
      with Cons.prems Cons.IH[of cs] c show ?thesis by auto
    qed
  qed
qed

text \<open>The encoded string holds no separator, so removing the separators leaves it as it is.\<close>

lemma encode_no_sep: "replaceAll SEP [] (encode_str t) = encode_str t"
proof (induction t rule: length_induct)
  case (1 t)
  show ?case
  proof (cases t)
    case Nil
    then show ?thesis by (simp add: encode_str_Nil)
  next
    case (Cons c cs)
    show ?thesis
    proof (cases "prefix newLine t")
      case True
      then obtain r where t: "t = newLine @ r" by (auto simp: prefix_def)
      then have e: "encode_str t = newLine_encoded @ encode_str r"
        by (simp add: encode_str_newLine)
      have "replaceAll SEP [] (encode_str r) = encode_str r" using 1 t by (simp add: newLine_def)
      then show ?thesis unfolding e
        by (simp add: newLine_encoded_def SEP_def)
    next
      case False
      with Cons have e: "encode_str t = c # encode_str cs"
        by (simp add: encode_str_other)
      have ih: "replaceAll SEP [] (encode_str cs) = encode_str cs" using 1 Cons by simp
      have "\<not> prefix SEP (c # encode_str cs)"
      proof
        assume p: "prefix SEP (c # encode_str cs)"
        then have c: "c = CHR 0x0D" and p2: "prefix [CHR 0x0A] (encode_str cs)"
          by (auto simp: SEP_def)
        from p2 have "prefix [CHR 0x0A] cs" by (rule prefix_encode_plain[rotated]) simp
        with c Cons False show False by (auto simp: newLine_def prefix_def)
      qed
      then have "replaceAll SEP [] (c # encode_str cs) = c # replaceAll SEP [] (encode_str cs)"
        by (intro replaceAll_noprefix) (simp_all add: SEP_def)
      then show ?thesis unfolding e using ih by (simp only:)
    qed
  qed
qed

lemma restore_encode:
  "\<not> str_includes t newLine_encoded \<Longrightarrow> replaceAll newLine_encoded newLine (encode_str t) = t"
proof (induction t rule: length_induct)
  case (1 t)
  show ?case
  proof (cases t)
    case Nil
    then show ?thesis by (simp add: encode_str_Nil newLine_encoded_def)
  next
    case (Cons c cs)
    show ?thesis
    proof (cases "prefix newLine t")
      case True
      then obtain r where t: "t = newLine @ r" by (auto simp: prefix_def)
      then have e: "encode_str t = newLine_encoded @ encode_str r"
        by (simp add: encode_str_newLine)
      have "\<not> str_includes r newLine_encoded" using "1.prems" t by (simp add: newLine_def)
      then have "replaceAll newLine_encoded newLine (encode_str r) = r"
        using 1 t by (simp add: newLine_def)
      moreover have "replaceAll newLine_encoded newLine (newLine_encoded @ encode_str r)
          = newLine @ replaceAll newLine_encoded newLine (encode_str r)"
        by (intro replaceAll_prefix) (simp add: newLine_encoded_def)
      ultimately show ?thesis unfolding e using t by (simp only:)
    next
      case False
      with Cons have e: "encode_str t = c # encode_str cs"
        by (simp add: encode_str_other)
      have n: "\<not> str_includes cs newLine_encoded" and np: "\<not> prefix newLine_encoded t"
        using "1.prems" Cons by simp_all
      have ih: "replaceAll newLine_encoded newLine (encode_str cs) = cs" using 1 Cons n by simp
      have "\<not> prefix newLine_encoded (c # encode_str cs)"
      proof
        assume p: "prefix newLine_encoded (c # encode_str cs)"
        then have c: "c = CHR ''<''" and p2: "prefix ''|NEW-LINE|>'' (encode_str cs)"
          by (auto simp: newLine_encoded_def)
        from p2 have "prefix ''|NEW-LINE|>'' cs" by (rule prefix_encode_plain[rotated]) simp
        with c Cons np show False by (auto simp: newLine_encoded_def)
      qed
      then have "replaceAll newLine_encoded newLine (c # encode_str cs)
          = c # replaceAll newLine_encoded newLine (encode_str cs)"
        by (intro replaceAll_noprefix) (simp_all add: newLine_encoded_def)
      then show ?thesis unfolding e using ih Cons by (simp only:)
    qed
  qed
qed

text \<open>
  C5, as the code has it. Encoding a record text for storage and decoding it on load gives
  the text back, with its line breaks, whenever the text does not contain the token
  \<open><|NEW-LINE|>\<close> itself.
\<close>

theorem C5_roundtrip_without_token:
  "\<not> str_includes t newLine_encoded \<Longrightarrow> decode_str (encode_str t) = t"
  by (simp add: decode_str_def encode_no_sep restore_encode)

theorem C5_roundtrip_witness:
  "\<not> str_includes (''a'' @ newLine @ ''b'') newLine_encoded
   \<and> decode_str (encode_str (''a'' @ newLine @ ''b'')) = ''a'' @ newLine @ ''b''"
  using C5_roundtrip_without_token [of "''a'' @ newLine @ ''b''"]
  by (simp add: newLine_def newLine_encoded_def)

text \<open>
  C5, as the specification states it, fails for a text that contains the token: the token
  is stored unchanged and comes back as a line break.
\<close>

theorem C5_roundtrip_counterexample:
  "decode_str (encode_str ''<|NEW-LINE|>'') \<noteq> ''<|NEW-LINE|>''"
  by (simp add: decode_str_def encode_str_def newLine_encoded_def newLine_def SEP_def)

subsection \<open>The layout of the file\<close>















subsection \<open>The counter of the model\<close>





subsection \<open>Editing a record\<close>

text \<open>
  C4. \<open>edit\<close> is all or nothing: when the new content passes the validation, the content of
  the record is the validated content and \<open>updatedAt\<close> is the time of the call, the rest of
  the record being as before; when the validation throws, \<open>edit\<close> throws the same error and
  the record, with its content, \<open>createdAt\<close> and \<open>updatedAt\<close>, is as it was.
\<close>

theorem C4_edit_all_or_nothing:
  "(\<forall>c. setup_content (schema' d) newContent = Inr c \<longrightarrow>
        fst (edit rt d newContent) = Inr ()
        \<and> content' (snd (edit rt d newContent)) = c
        \<and> updateTime (snd (edit rt d newContent)) = Some (now rt)
        \<and> snd (edit rt d newContent) = d\<lparr>content' := c, updateTime := Some (now rt)\<rparr>)
   \<and> (\<forall>e. setup_content (schema' d) newContent = Inl e \<longrightarrow>
        fst (edit rt d newContent) = Inl e
        \<and> snd (edit rt d newContent) = d
        \<and> content' (snd (edit rt d newContent)) = content' d
        \<and> createTime (snd (edit rt d newContent)) = createTime d
        \<and> updateTime (snd (edit rt d newContent)) = updateTime d)"
  by (simp add: edit_def)

theorem C4_edit_witness:
  "setup_content (schema' sample_doc) (JObj [(''title'', JStr ''B'')]) = Inr [(''title'', JStr ''B'')]
   \<and> snd (edit sample_rt sample_doc (JObj [(''title'', JStr ''B'')]))
       = sample_doc\<lparr>content' := [(''title'', JStr ''B'')], updateTime := Some (now sample_rt)\<rparr>
   \<and> setup_content (schema' sample_doc) (JObj []) = Inl (MissingRequired ''title'')
   \<and> fst (edit sample_rt sample_doc (JObj [])) = Inl (MissingRequired ''title'')
   \<and> snd (edit sample_rt sample_doc (JObj [])) = sample_doc"
proof -
  have a: "setup_content (schema' sample_doc) (JObj [(''title'', JStr ''B'')]) = Inr [(''title'', JStr ''B'')]"
    by (simp add: setup_content_def get_definition_def sample_doc_def titleSchema_def js_defs)
  have b: "setup_content (schema' sample_doc) (JObj []) = Inl (MissingRequired ''title'')"
    by (simp add: setup_content_def get_definition_def sample_doc_def titleSchema_def js_defs)
  from a C4_edit_all_or_nothing [of sample_doc "JObj [(''title'', JStr ''B'')]" sample_rt]
  have "snd (edit sample_rt sample_doc (JObj [(''title'', JStr ''B'')]))
       = sample_doc\<lparr>content' := [(''title'', JStr ''B'')], updateTime := Some (now sample_rt)\<rparr>"
    by blast
  moreover from b C4_edit_all_or_nothing [of sample_doc "JObj []" sample_rt]
  have "fst (edit sample_rt sample_doc (JObj [])) = Inl (MissingRequired ''title'')
      \<and> snd (edit sample_rt sample_doc (JObj [])) = sample_doc"
    by blast
  ultimately show ?thesis using a b by simp
qed

subsection \<open>The schemas that the constructor builds\<close>





























subsection \<open>Validation of a content\<close>













subsection \<open>Copying a schema\<close>










subsection \<open>Connecting the handler\<close>


lemma check_db_file_existing:
  "nodes fs p = Some (RegularFile m c) \<Longrightarrow> p \<noteq> [] \<Longrightarrow> extname p = dbFileExt \<Longrightarrow>
   check_db_file fs p = (Inr True, fs)"
  by (simp add: check_db_file_def fs_stat_def F_OK_def)

text \<open>
  C8. The specification has \<open>connect\<close> fail on an existing regular file that lacks the
  permission to read or to write. In the code the test of the permissions never holds:
  \<open>stats.mode & fs.constants.F_OK\<close> is \<open>0\<close>, since \<open>F_OK\<close> is \<open>0\<close>, so the condition of the
  rejection is false for every mode (\<open>check_db_file_existing\<close>). Here the file \<open>db.json\<close>
  is a regular file whose mode has no permission bit, and the handler connects to it. The
  rest of the claim holds in the code: a path whose extension is not \<open>.json\<close> is rejected, a
  missing file is created empty, and a path that is not a regular file is rejected.
\<close>

theorem C8_connects_without_permission:
  "connect_dbFilePath new_DBHandler (sample_fs []) ''db.json''
     = (Inr (), \<lparr>dbFilePath = Some ''db.json''\<rparr>, sample_fs [])"
  by (simp add: connect_dbFilePath_def new_DBHandler_def sample_fs_def check_db_file_def
      fs_stat_def F_OK_def extname_def dbFileExt_def)


lemma check_db_file_other_cases:
  "extname p \<noteq> dbFileExt \<Longrightarrow> check_db_file fs p = (Inl InvalidFileType, fs)"
  "p \<noteq> [] \<Longrightarrow> extname p = dbFileExt \<Longrightarrow> nodes fs p = None \<Longrightarrow> creatable fs p \<Longrightarrow>
     check_db_file fs p
       = (Inr True, fs\<lparr>nodes := (nodes fs)(p \<mapsto> RegularFile (S_IFREG OR (0x1B6 AND NOT (umask fs))) [])\<rparr>)"
  "p \<noteq> [] \<Longrightarrow> extname p = dbFileExt \<Longrightarrow> nodes fs p = Some (Directory m) \<Longrightarrow>
     check_db_file fs p = (Inl NotAFile, fs)"
  by (simp_all add: check_db_file_def fs_stat_def fs_writeFile_def)


subsection \<open>The identifier of a record\<close>

lemma init_doc_id:
  "init_doc rt this content = Inr this' \<Longrightarrow>
   id' this' = (if hasOwn content idMark then get_prop content idMark else id' this)"
  by (auto simp: init_doc_def bind_err_def Let_def split: sum.splits if_splits)

lemma doc_set_options_id: "doc_set_options rt this = Inr this' \<Longrightarrow> id' this' = id' this"
  by (auto simp: doc_set_options_def bind_err_def split: sum.splits if_splits)

lemma Document_id:
  assumes "Document rt content sch handler seed = Inr doc"
  shows "id' doc =
     (if hasOwn content idMark \<and> get_prop content idMark \<noteq> JStr [] then get_prop content idMark
      else JStr (idSeed_toString seed @ ''-'' @ show_int (now rt) @ ''-'' @ randomHex rt))"
proof -
  define this0 where "this0 = \<lparr>content' = [], createTime = None, updateTime = None, id' = JStr [],
                        schema' = sch, dbHandler = handler, saved = False\<rparr>"
  from assms obtain this1 this2 where
    i: "init_doc rt this0 content = Inr this1" and o: "doc_set_options rt this1 = Inr this2"
    and d: "doc = (if id' this2 = JStr []
              then this2\<lparr>id' := JStr (idSeed_toString seed @ ''-'' @ show_int (now rt) @ ''-'' @ randomHex rt)\<rparr>
              else this2)"
    unfolding Document_def this0_def
    by (auto simp: bind_err_def Let_def split: sum.splits if_splits)
  have "id' this2 = (if hasOwn content idMark then get_prop content idMark else JStr [])"
    using init_doc_id[OF i] doc_set_options_id[OF o] by (simp add: this0_def)
  then show ?thesis unfolding d by auto
qed

lemma reconstruct_doc_Document:
  "reconstruct_doc rt content sch handler b = Some doc \<Longrightarrow>
   \<exists>doc0. Document rt content sch handler (SeedNum (- 1)) = Inr doc0 \<and> doc = doc0\<lparr>saved := b\<rparr>"
  by (auto simp: reconstruct_doc_def bind_err_def Let_def split: sum.splits if_splits)

text \<open>
  C10, as the code has it. When the constructor returns a record for a content that has
  the key \<open>_id\<close>, the identifier of the record is \<open>content._id\<close> whatever its type, unless
  \<open>content._id\<close> is the empty string: then the constructor mints a fresh identifier from
  the seed, the time and the random digits, as it does for a content without \<open>_id\<close>. So a
  \<open>_id\<close> that is not a string, given to \<open>reconstruct_doc\<close>, is the identifier of the record
  that it returns.
\<close>

theorem C10_adopts_id:
  "(\<forall>doc. Document rt content sch handler seed = Inr doc \<and> hasOwn content idMark \<longrightarrow>
       (get_prop content idMark \<noteq> JStr [] \<longrightarrow> id' doc = get_prop content idMark)
       \<and> (get_prop content idMark = JStr [] \<longrightarrow>
            id' doc = JStr (idSeed_toString seed @ ''-'' @ show_int (now rt) @ ''-'' @ randomHex rt)))
   \<and> (\<forall>doc. reconstruct_doc rt content sch handler was_saved = Some doc \<and> hasOwn content idMark
          \<and> typeof (get_prop content idMark) \<noteq> ''string'' \<longrightarrow> id' doc = get_prop content idMark)"
proof (intro conjI allI impI)
  fix doc
  assume a: "Document rt content sch handler seed = Inr doc \<and> hasOwn content idMark"
  show "id' doc = get_prop content idMark" if "get_prop content idMark \<noteq> JStr []"
    using Document_id[of rt content sch handler seed doc] a that by simp
  show "id' doc = JStr (idSeed_toString seed @ ''-'' @ show_int (now rt) @ ''-'' @ randomHex rt)"
    if "get_prop content idMark = JStr []"
    using Document_id[of rt content sch handler seed doc] a that by simp
next
  fix doc
  assume a: "reconstruct_doc rt content sch handler was_saved = Some doc \<and> hasOwn content idMark
          \<and> typeof (get_prop content idMark) \<noteq> ''string''"
  then obtain doc0 where d: "Document rt content sch handler (SeedNum (- 1)) = Inr doc0"
    "doc = doc0\<lparr>saved := was_saved\<rparr>"
    using reconstruct_doc_Document by blast
  from a have "get_prop content idMark \<noteq> JStr []" by auto
  then show "id' doc = get_prop content idMark"
    using Document_id[OF d(1)] a d(2) by simp
qed

lemmas doc_eval_defs = Document_def is_valid_schema_def get_options_def get_definition_def
  is_valid_definition_param_format_def get_default_val_by_param_property_def
  allowedTypesAndDefaultsVals_def defaultOptions_def init_doc_def setup_content_def
  doc_set_options_def idMark_def createTMark_def updateTMark_def js_defs

lemma Document_numeric_id:
  "Document sample_rt (JObj [(''_id'', JNum 5), (''title'', JStr ''A'')]) titleSchema sample_handler (SeedNum 7)
     = Inr \<lparr>content' = [(''title'', JStr ''A'')], createTime = Some 1700000000000,
            updateTime = Some 1700000000000, id' = JNum 5, schema' = titleSchema,
            dbHandler = sample_handler, saved = False\<rparr>"
  by (simp add: doc_eval_defs titleSchema_def sample_rt_def)

theorem C10_adopts_id_witness:
  "Document sample_rt (JObj [(''_id'', JNum 5), (''title'', JStr ''A'')]) titleSchema sample_handler (SeedNum 7)
     = Inr \<lparr>content' = [(''title'', JStr ''A'')], createTime = Some 1700000000000,
            updateTime = Some 1700000000000, id' = JNum 5, schema' = titleSchema,
            dbHandler = sample_handler, saved = False\<rparr>
   \<and> hasOwn (JObj [(''_id'', JNum 5), (''title'', JStr ''A'')]) idMark
   \<and> get_prop (JObj [(''_id'', JNum 5), (''title'', JStr ''A'')]) idMark = JNum 5"
  using C10_adopts_id [of sample_rt "JObj [(''_id'', JNum 5), (''title'', JStr ''A'')]" titleSchema
      sample_handler "SeedNum 7" False] Document_numeric_id
  by (simp add: hasOwn_def get_prop_def idMark_def)

text \<open>
  C10, as the claim states it, fails for the content \<open>{_id: '', title: 'A'}\<close>: it has the
  key \<open>_id\<close>, and the record gets a fresh identifier.
\<close>

theorem C10_empty_id_counterexample:
  "hasOwn (JObj [(''_id'', JStr []), (''title'', JStr ''A'')]) idMark
   \<and> get_prop (JObj [(''_id'', JStr []), (''title'', JStr ''A'')]) idMark = JStr []
   \<and> Document sample_rt (JObj [(''_id'', JStr []), (''title'', JStr ''A'')]) titleSchema sample_handler (SeedNum 7)
     = Inr \<lparr>content' = [(''title'', JStr ''A'')], createTime = Some 1700000000000,
            updateTime = Some 1700000000000, id' = JStr ''7-1700000000000-0a1b2c3d4e5f'',
            schema' = titleSchema, dbHandler = sample_handler, saved = False\<rparr>"
  by (simp add: doc_eval_defs titleSchema_def sample_rt_def show_int_def show_nat.simps)


subsection \<open>Deleting records by identifier\<close>

















subsection \<open>Saving a record again\<close>









lemma kept_lines_append: "kept_lines pattern (xs @ ys) = kept_lines pattern xs @ kept_lines pattern ys"
  by (simp add: kept_lines_def)




text \<open>The lines of a file in the layout are the brackets and the records.\<close>

lemma no_sep_Cons: "\<not> str_includes (c # cs) SEP \<Longrightarrow> \<not> prefix SEP (c # cs) \<and> \<not> str_includes cs SEP"
  by simp



























subsection \<open>Every write keeps the layout\<close>



end
